theory Spec2Isabelle
  imports Complex_Main "HOL-Library.Multiset"
begin

section \<open>Transmit delays for a matrix array: \<open>txdelay3\<close> of PyMUST\<close>

text \<open>
  A shallow embedding of \<open>src/pymust/txdelay3.py\<close>. NumPy's floating-point numbers are
  idealised as the real numbers: every arithmetic operation is exact. Where NumPy leaves
  the finite numbers without raising (a division by zero gives \<open>inf\<close> or \<open>nan\<close>), the model
  stops with the outcome \<open>NonFinite\<close>, which is not a Python exception.
\<close>

subsection \<open>Data\<close>

text \<open>A two-dimensional NumPy array is the list of its rows.\<close>

type_synonym ndarray = "real list list"

text \<open>
  The configuration object \<open>param\<close> (class \<open>utils.Param\<close>): the fields this file reads or
  writes. An absent field is \<open>None\<close> (\<open>utils.isfield\<close> is false on it).
\<close>

record Param =
  elements :: "ndarray option"
  c :: "real option"
  width :: "real option"
  height :: "real option"
  TXdelay :: "ndarray option"

text \<open>
  A positional argument of \<open>txdelay3(*args)\<close>: a configuration object, a Python number,
  or a one-dimensional array of numbers.
\<close>

datatype arg = AParam Param | ANum real | AArr "real list"

text \<open>The local variable \<open>option\<close> (lines 158, 162, 167).\<close>

datatype beam = Origo | Diverging_Wave | Plane_Wave

text \<open>
  The ways a call ends without a result. The first seven are the \<open>assert\<close> statements of
  the source, named after the error kinds of the specification:
  \<^item> \<open>InvalidArguments\<close>: line 171, \<open>assert isinstance(param, utils.Param)\<close>;
  \<^item> \<open>MissingGeometry\<close>: lines 174 and 175;
  \<^item> \<open>MismatchedTargetLength\<close>: line 252;
  \<^item> \<open>NotScalar\<close>: lines 196 and 205; \<open>InvalidTiltAngle\<close>: lines 197 and 206;
  \<^item> \<open>InvalidSolidAngle\<close>: lines 207 and 208;
  \<^item> \<open>NonPlaidGrid\<close>: line 215.
  The others are raised by Python or NumPy themselves:
  \<^item> \<open>UnboundLocalError v\<close>: the local variable \<open>v\<close> is read before any assignment;
  \<^item> \<open>TypeError\<close>: arithmetic on a configuration object;
  \<^item> \<open>MissingExtent\<close>: arithmetic with an absent \<open>param.width\<close> or \<open>param.height\<close>;
  \<^item> \<open>NumpyValueError\<close>: shapes that do not broadcast, or the minimum or maximum of an
    empty array;
  \<^item> \<open>HelperError\<close>: raised inside \<open>param.getElementPositions()\<close>.
  \<open>NonFinite\<close> is explained above.
\<close>

datatype error =
    InvalidArguments
  | MissingGeometry
  | MismatchedTargetLength
  | NotScalar
  | InvalidTiltAngle
  | InvalidSolidAngle
  | NonPlaidGrid
  | UnboundLocalError string
  | TypeError
  | MissingExtent
  | NumpyValueError
  | HelperError
  | NonFinite

subsection \<open>NumPy and Python operations\<close>

text \<open>Python's \<open>+\<close> on two arguments, with NumPy's broadcasting of one-dimensional arrays.\<close>

fun py_add :: "arg \<Rightarrow> arg \<Rightarrow> error + arg" where
  "py_add (ANum a) (ANum b) = Inr (ANum (a + b))"
| "py_add (ANum a) (AArr bs) = Inr (AArr (map (\<lambda>b. a + b) bs))"
| "py_add (AArr as) (ANum b) = Inr (AArr (map (\<lambda>a. a + b) as))"
| "py_add (AArr as) (AArr bs) =
     (if length as = length bs then Inr (AArr (map2 (+) as bs))
      else if length as = 1 then Inr (AArr (map (\<lambda>b. hd as + b) bs))
      else if length bs = 1 then Inr (AArr (map (\<lambda>a. a + hd bs) as))
      else Inl NumpyValueError)"
| "py_add _ _ = Inl TypeError"

text \<open>\<open>np.isscalar\<close>.\<close>

fun isscalar :: "arg \<Rightarrow> bool" where
  "isscalar (ANum _) = True"
| "isscalar _ = False"

text \<open>
  \<open>np.array(a).reshape((-1, 1), order="F")\<close>: the column of the numbers of \<open>a\<close>. A
  configuration object becomes a single cell holding the object (\<open>None\<close> here: it has
  no numbers), so its length is 1.
\<close>

fun column :: "arg \<Rightarrow> real list option" where
  "column (ANum v) = Some [v]"
| "column (AArr vs) = Some vs"
| "column (AParam _) = None"

fun column_len :: "arg \<Rightarrow> nat" where
  "column_len (ANum _) = 1"
| "column_len (AArr vs) = length vs"
| "column_len (AParam _) = 1"

text \<open>\<open>np.unique\<close>: the distinct values in increasing order.\<close>

definition np_unique :: "real list \<Rightarrow> real list" where
  "np_unique xs = sort (remdups xs)"

text \<open>
  \<open>np.meshgrid(u, v)\<close>: two arrays of \<open>len(v)\<close> rows and \<open>len(u)\<close> columns; the first repeats
  \<open>u\<close> in every row, the second repeats \<open>v\<close> in every column.
\<close>

definition meshgrid :: "real list \<Rightarrow> real list \<Rightarrow> ndarray \<times> ndarray" where
  "meshgrid u v = (replicate (length v) u, map (\<lambda>y. replicate (length u) y) v)"

text \<open>\<open>a.flatten()\<close> of a two-dimensional array: the rows one after the other.\<close>

definition flatten :: "ndarray \<Rightarrow> real list" where
  "flatten a = concat a"

text \<open>
  \<open>np.all(a == b)\<close> for a one-dimensional \<open>a\<close> and the single row \<open>b\<close> of a one-row array.
  Equal lengths compare entry by entry; a length of 1 broadcasts; other lengths do not
  broadcast, and the comparison is \<open>False\<close> as a whole (NumPy before 1.25; later
  versions raise instead).
\<close>

definition np_all_eq :: "real list \<Rightarrow> real list \<Rightarrow> bool" where
  "np_all_eq a b =
     (if length a = length b then list_all2 (=) a b
      else if length a = 1 then list_all (\<lambda>v. hd a = v) b
      else if length b = 1 then list_all (\<lambda>v. v = hd b) a
      else False)"

text \<open>\<open>np.hypot\<close> and \<open>np.arctan2\<close> on real numbers.\<close>

definition hypot :: "real \<Rightarrow> real \<Rightarrow> real" where
  "hypot a b = sqrt (a\<^sup>2 + b\<^sup>2)"

definition arctan2 :: "real \<Rightarrow> real \<Rightarrow> real" where
  "arctan2 y x =
     (if 0 < x then arctan (y / x)
      else if x < 0 \<and> 0 \<le> y then arctan (y / x) + pi
      else if x < 0 then arctan (y / x) - pi
      else if 0 < y then pi / 2
      else if y < 0 then - (pi / 2)
      else 0)"

text \<open>Vectors of three coordinates: \<open>np.cross\<close> and \<open>np.linalg.norm\<close> along axis 0.\<close>

type_synonym vec3 = "real \<times> real \<times> real"

fun sub3 :: "vec3 \<Rightarrow> vec3 \<Rightarrow> vec3" where
  "sub3 (a1, a2, a3) (b1, b2, b3) = (a1 - b1, a2 - b2, a3 - b3)"

fun cross3 :: "vec3 \<Rightarrow> vec3 \<Rightarrow> vec3" where
  "cross3 (a1, a2, a3) (b1, b2, b3) = (a2 * b3 - a3 * b2, a3 * b1 - a1 * b3, a1 * b2 - a2 * b1)"

fun norm3 :: "vec3 \<Rightarrow> real" where
  "norm3 (a1, a2, a3) = sqrt (a1\<^sup>2 + a2\<^sup>2 + a3\<^sup>2)"

subsection \<open>\<open>solidAngle\<close> (lines 270 to 295)\<close>

definition solidAngle :: "real \<Rightarrow> real \<Rightarrow> real \<Rightarrow> real \<Rightarrow> real \<Rightarrow> real" where
  "solidAngle r l b az el =
     (let L1 = l / 2 + r * cos el * cos az;
          L2 = - l / 2 + r * cos el * cos az;
          B1 = b / 2 + r * cos el * sin az;
          B2 = b / 2 - r * cos el * sin az;
          H = r * sin el;
          w = (\<lambda>l b. arcsin (l * b / hypot l H / hypot b H));
          Om = w L1 B1 + w L1 B2 - w L2 B1 - w L2 B2
      in Om)"

text \<open>The function to minimise (lines 235 and 236).\<close>

definition myfun :: "real \<Rightarrow> real \<Rightarrow> real \<Rightarrow> real \<Rightarrow> real \<Rightarrow> real \<Rightarrow> real" where
  "myfun omega l b az el r = \<bar>solidAngle r l b az el - omega\<bar>"

subsection \<open>The three delay laws\<close>

text \<open>Lines 154 to 169: which names \<open>param\<close> and \<open>option\<close> are bound to, if any.\<close>

fun is_Param :: "arg \<Rightarrow> bool" where
  "is_Param (AParam _) = True"
| "is_Param _ = False"

definition dispatch :: "arg list \<Rightarrow> (arg \<times> beam) option" where
  "dispatch args =
     (if length args = 4 then
        (if is_Param (args ! 3) then Some (args ! 3, Origo)
         else if is_Param (args ! 0) then Some (args ! 0, Diverging_Wave)
         else None)
      else if length args = 3 then Some (args ! 0, Plane_Wave)
      else None)"

text \<open>Lines 174 to 180: the rows \<open>xe\<close> and \<open>ye\<close> of \<open>param.elements\<close>.\<close>

definition geometry :: "Param \<Rightarrow> error + real list \<times> real list" where
  "geometry p =
     (case elements p of
        None \<Rightarrow> Inl MissingGeometry
      | Some els \<Rightarrow> if length els = 2 then Inr (els ! 0, els ! 1) else Inl MissingGeometry)"

text \<open>Lines 183 and 184.\<close>

definition default_c :: "Param \<Rightarrow> Param" where
  "default_c p = (if c p = None then p\<lparr>c := Some 1540\<rparr> else p)"

text \<open>Lines 194 to 198, plane wave.\<close>

definition plane_wave :: "real list \<Rightarrow> real list \<Rightarrow> real \<Rightarrow> arg \<Rightarrow> arg \<Rightarrow> error + ndarray" where
  "plane_wave xe ye cv a1 a2 =
     (case py_add a1 a2 of
        Inl e \<Rightarrow> Inl e
      | Inr s \<Rightarrow>
          if \<not> isscalar s then Inl NotScalar
          else
            (case (a1, a2) of
               (ANum tiltx, ANum tilty) \<Rightarrow>
                 if \<not> (\<bar>tiltx\<bar> < pi / 2 \<and> \<bar>tilty\<bar> < pi / 2) then Inl InvalidTiltAngle
                 else if cv = 0 then Inl NonFinite
                 else Inr [map2 (\<lambda>x y. (x * sin tilty - y * sin tiltx) / cv) xe ye]
             | _ \<Rightarrow> Inl NotScalar))"

text \<open>Lines 211 to 214, the test for a plaid grid.\<close>

definition plaid_test :: "real list \<Rightarrow> real list \<Rightarrow> bool" where
  "plaid_test xe ye =
     (let uxe = np_unique xe;
          uye = np_unique ye;
          (xep, yep) = meshgrid uxe uye
      in np_all_eq (sort (flatten xep)) (sort xe) \<and> np_all_eq (sort (flatten yep)) (sort ye))"

text \<open>
  Lines 202 to 244, diverging wave up to the position \<open>(x0, y0, z0)\<close> of the virtual
  source. \<open>scipy.optimize.fminbound\<close> is a parameter, called with the function, the two
  bounds and \<open>xtol\<close>.
\<close>

type_synonym minimiser = "(real \<Rightarrow> real) \<Rightarrow> real \<Rightarrow> real \<Rightarrow> real \<Rightarrow> real"

definition virtual_source ::
  "minimiser \<Rightarrow> Param \<Rightarrow> real list \<Rightarrow> real list \<Rightarrow> arg \<Rightarrow> arg \<Rightarrow> arg \<Rightarrow> error + vec3" where
  "virtual_source fminbound p xe ye a1 a2 a3 =
     (case py_add a1 a2 of
        Inl e \<Rightarrow> Inl e
      | Inr s \<Rightarrow>
     (case py_add s a3 of
        Inl e \<Rightarrow> Inl e
      | Inr t \<Rightarrow>
     if \<not> isscalar t then Inl NotScalar
     else
     (case (a1, a2, a3) of
        (ANum tiltx, ANum tilty, ANum omega) \<Rightarrow>
          if \<not> (\<bar>tiltx\<bar> < pi / 2 \<and> \<bar>tilty\<bar> < pi / 2) then Inl InvalidTiltAngle
          else if \<not> omega \<le> 2 * pi then Inl InvalidSolidAngle
          else if \<not> 0 \<le> omega then Inl InvalidSolidAngle
          else if \<not> plaid_test xe ye then Inl NonPlaidGrid
          else
            let x = - sin tilty * cos tiltx;
                y = sin tiltx;
                z = - cos tilty * cos tiltx;
                az = arctan2 y x;
                el = arctan2 z (sqrt (x\<^sup>2 + y\<^sup>2))
            in
              if xe = [] then Inl NumpyValueError
              else
                (case width p of
                   None \<Rightarrow> Inl MissingExtent
                 | Some wd \<Rightarrow>
                     let l = Max (set xe) - Min (set xe) + wd
                     in
                       if ye = [] then Inl NumpyValueError
                       else
                         (case height p of
                            None \<Rightarrow> Inl MissingExtent
                          | Some ht \<Rightarrow>
                              let b = Max (set ye) - Min (set ye) + ht;
                                  r = fminbound (myfun omega l b az el) 0 (2 * pi) (1 / 10 ^ 6);
                                  cos_el = cos el;
                                  x0 = r * cos_el * cos az;
                                  y0 = r * cos_el * sin az;
                                  z0 = r * sin el
                              in Inr (x0, y0, z0)))
      | _ \<Rightarrow> Inl NotScalar)))"

text \<open>Lines 249 to 262, focus on a point or on a line.\<close>

definition focus_point :: "real list \<Rightarrow> real list \<Rightarrow> real \<Rightarrow> real \<Rightarrow> real \<Rightarrow> real list" where
  "focus_point xe ye x0 y0 z0 = map2 (\<lambda>x y. sqrt ((x - x0)\<^sup>2 + (y - y0)\<^sup>2 + z0\<^sup>2)) xe ye"

definition focus_line :: "real list \<Rightarrow> real list \<Rightarrow> vec3 \<Rightarrow> vec3 \<Rightarrow> real list" where
  "focus_line xe ye x1 x2 =
     map2 (\<lambda>x y. norm3 (cross3 (sub3 (x, y, 0) x1) (sub3 (x, y, 0) x2)) / norm3 (sub3 x2 x1)) xe ye"

definition origo :: "real list \<Rightarrow> real list \<Rightarrow> real \<Rightarrow> arg \<Rightarrow> arg \<Rightarrow> arg \<Rightarrow> error + ndarray" where
  "origo xe ye cv a0 a1 a2 =
     (if \<not> (column_len a0 = column_len a1 \<and> column_len a1 = column_len a2)
      then Inl MismatchedTargetLength
      else if column_len a0 = 1 then
        (case (column a0, column a1, column a2) of
           (Some [x0], Some [y0], Some [z0]) \<Rightarrow>
             if cv = 0 then Inl NonFinite
             else Inr [map (\<lambda>d. - d / cv * sgn z0) (focus_point xe ye x0 y0 z0)]
         | _ \<Rightarrow> Inl TypeError)
      else if column_len a0 = 2 then
        (case (column a0, column a1, column a2) of
           (Some [x01, x02], Some [y01, y02], Some [z01, z02]) \<Rightarrow>
             if (x02, y02, z02) = (x01, y01, z01) \<or> cv = 0 then Inl NonFinite
             else
               let d = focus_line xe ye (x01, y01, z01) (x02, y02, z02)
               in Inr (map (\<lambda>z0. map (\<lambda>d. - d / cv * sgn z0) d) [z01, z02])
         | _ \<Rightarrow> Inl TypeError)
      else Inl (UnboundLocalError ''d''))"

text \<open>Line 264: every row is shifted by its own minimum.\<close>

definition shift_min :: "ndarray \<Rightarrow> error + ndarray" where
  "shift_min delays =
     (if [] \<in> set delays then Inl NumpyValueError
      else Inr (map (\<lambda>row. map (\<lambda>v. v - Min (set row)) row) delays))"

text \<open>
  Lines 264 to 267, from the value of \<open>delays\<close> and the state of \<open>param\<close>: the result of
  a call is the outcome together with the final state of the configuration object bound
  to \<open>param\<close>, if one was.
\<close>

type_synonym outcome = "(error + ndarray) \<times> Param option"

definition finish :: "error + ndarray \<Rightarrow> Param \<Rightarrow> outcome" where
  "finish delays param =
     (case delays of
        Inl e \<Rightarrow> (Inl e, Some param)
      | Inr d \<Rightarrow>
          (case shift_min d of
             Inl e \<Rightarrow> (Inl e, Some param)
           | Inr d' \<Rightarrow> (Inr d', Some (param\<lparr>TXdelay := Some d'\<rparr>))))"

subsection \<open>\<open>txdelay3\<close> (lines 14 to 267)\<close>

text \<open>
  \<open>getElementPositions\<close> (line 190, a method of \<open>utils.Param\<close>) is a parameter: it may
  raise (\<open>Some e\<close>); the four values it returns are not used. The call on line 245 is the
  only one the function makes to itself, and its arguments select \<open>Origo\<close>.
\<close>

type_synonym helper = "Param \<Rightarrow> error option"

function txdelay3 :: "helper \<Rightarrow> minimiser \<Rightarrow> arg list \<Rightarrow> outcome" where
  "txdelay3 getElementPositions fminbound args =
     (case dispatch args of
        None \<Rightarrow> (Inl (UnboundLocalError ''param''), None)
      | Some (a, option) \<Rightarrow>
     (case a of
        ANum _ \<Rightarrow> (Inl InvalidArguments, None)
      | AArr _ \<Rightarrow> (Inl InvalidArguments, None)
      | AParam param \<Rightarrow>
     (case geometry param of
        Inl e \<Rightarrow> (Inl e, Some param)
      | Inr (xe, ye) \<Rightarrow>
          let param1 = default_c param;
              cv = the (c param1)
          in
     (case getElementPositions param1 of
        Some e \<Rightarrow> (Inl e, Some param1)
      | None \<Rightarrow>
          let (delays, param2) =
            (case option of
               Plane_Wave \<Rightarrow> (plane_wave xe ye cv (args ! 1) (args ! 2), param1)
             | Diverging_Wave \<Rightarrow>
                 (case virtual_source fminbound param1 xe ye (args ! 1) (args ! 2) (args ! 3) of
                    Inl e \<Rightarrow> (Inl e, param1)
                  | Inr (x0, y0, z0) \<Rightarrow>
                      (case txdelay3 getElementPositions fminbound
                              [ANum x0, ANum y0, ANum z0, AParam param1] of
                         (r, Some param') \<Rightarrow> (r, param')
                       | (r, None) \<Rightarrow> (r, param1)))
             | Origo \<Rightarrow> (origo xe ye cv (args ! 0) (args ! 1) (args ! 2), param1))
          in finish delays param2))))"
  by pat_completeness auto
termination
  by (relation "measure (\<lambda>(g, f, args).
        case dispatch args of Some (a, Diverging_Wave) \<Rightarrow> 1 | _ \<Rightarrow> 0)")
     (auto simp: dispatch_def)

declare txdelay3.simps [simp del]

text \<open>The value of the local variable \<open>delays\<close> when line 264 is reached.\<close>

definition raw_delays :: "helper \<Rightarrow> minimiser \<Rightarrow> arg list \<Rightarrow> error + ndarray" where
  "raw_delays getElementPositions fminbound args =
     (case dispatch args of
        None \<Rightarrow> Inl (UnboundLocalError ''param'')
      | Some (a, option) \<Rightarrow>
     (case a of
        ANum _ \<Rightarrow> Inl InvalidArguments
      | AArr _ \<Rightarrow> Inl InvalidArguments
      | AParam param \<Rightarrow>
     (case geometry param of
        Inl e \<Rightarrow> Inl e
      | Inr (xe, ye) \<Rightarrow>
          let param1 = default_c param;
              cv = the (c param1)
          in
     (case getElementPositions param1 of
        Some e \<Rightarrow> Inl e
      | None \<Rightarrow>
     (case option of
        Plane_Wave \<Rightarrow> plane_wave xe ye cv (args ! 1) (args ! 2)
      | Diverging_Wave \<Rightarrow>
          (case virtual_source fminbound param1 xe ye (args ! 1) (args ! 2) (args ! 3) of
             Inl e \<Rightarrow> Inl e
           | Inr (x0, y0, z0) \<Rightarrow>
               fst (txdelay3 getElementPositions fminbound
                      [ANum x0, ANum y0, ANum z0, AParam param1]))
      | Origo \<Rightarrow> origo xe ye cv (args ! 0) (args ! 1) (args ! 2))))))"

text \<open>Lines 5 to 12.\<close>

definition txdelay3Plane :: "helper \<Rightarrow> minimiser \<Rightarrow> arg \<Rightarrow> arg \<Rightarrow> arg \<Rightarrow> outcome" where
  "txdelay3Plane g f param tiltx tilty = txdelay3 g f [param, tiltx, tilty]"

definition txdelay3Diverging ::
  "helper \<Rightarrow> minimiser \<Rightarrow> arg \<Rightarrow> arg \<Rightarrow> arg \<Rightarrow> arg \<Rightarrow> outcome" where
  "txdelay3Diverging g f param tiltx tilty omega = txdelay3 g f [param, tiltx, tilty, omega]"

definition txdelay3Focused :: "helper \<Rightarrow> minimiser \<Rightarrow> arg \<Rightarrow> arg \<Rightarrow> arg \<Rightarrow> arg \<Rightarrow> outcome" where
  "txdelay3Focused g f param x y z = txdelay3 g f [x, y, z, param]"

text \<open>
  Two stand-ins for the collaborators, for evaluating calls: a \<open>getElementPositions\<close>
  that returns normally, and a minimiser that returns the given number.
\<close>

definition helper_ok :: helper where
  "helper_ok p = None"

definition minimiser_const :: "real \<Rightarrow> minimiser" where
  "minimiser_const r h a b xtol = r"

text \<open>
  Configuration objects for evaluating calls: two elements at \<open>(0, 0)\<close> and \<open>(3, 0)\<close>, with
  the velocity 1 and without a velocity; three elements at \<open>(0, 0)\<close>, \<open>(0, 4)\<close> and
  \<open>(0, - 4)\<close>; four elements, two at \<open>(0, 0)\<close> and two at \<open>(1, 1)\<close>, of width and height 1.
\<close>

definition param_c1 :: Param where
  "param_c1 =
     \<lparr>elements = Some [[0, 3], [0, 0]], c = Some 1, width = None, height = None,
       TXdelay = None\<rparr>"

definition param_no_c :: Param where
  "param_no_c =
     \<lparr>elements = Some [[0, 3], [0, 0]], c = None, width = None, height = None,
       TXdelay = None\<rparr>"

definition param_line :: Param where
  "param_line =
     \<lparr>elements = Some [[0, 0, 0], [0, 4, - 4]], c = Some 1, width = None, height = None,
       TXdelay = None\<rparr>"

definition param_coincident :: Param where
  "param_coincident =
     \<lparr>elements = Some [[0, 0, 1, 1], [0, 0, 1, 1]], c = Some 1, width = Some 1,
       height = Some 1, TXdelay = None\<rparr>"

subsection \<open>Formulas of the specification\<close>

text \<open>
  These definitions are not taken from the source. They write down, in the words of the
  specification, the closed form of the solid angle and what a plaid grid is, to be
  compared with \<open>solidAngle\<close> and \<open>plaid_test\<close>.
\<close>

definition w_spec :: "real \<Rightarrow> real \<Rightarrow> real \<Rightarrow> real" where
  "w_spec H L B = arcsin (L * B / hypot L H / hypot B H)"

definition solid_angle_spec :: "real \<Rightarrow> real \<Rightarrow> real \<Rightarrow> real \<Rightarrow> real \<Rightarrow> real" where
  "solid_angle_spec r l b az el =
     w_spec (r * sin el) (l / 2 + r * cos el * cos az) (b / 2 + r * cos el * sin az)
     + w_spec (r * sin el) (l / 2 + r * cos el * cos az) (b / 2 - r * cos el * sin az)
     - w_spec (r * sin el) (- l / 2 + r * cos el * cos az) (b / 2 + r * cos el * sin az)
     - w_spec (r * sin el) (- l / 2 + r * cos el * cos az) (b / 2 - r * cos el * sin az)"

definition plaid_grid_spec :: "real list \<Rightarrow> real list \<Rightarrow> bool" where
  "plaid_grid_spec xe ye \<longleftrightarrow>
     mset (zip xe ye) = mset (List.product (remdups xe) (remdups ye))"

section \<open>Properties\<close>

subsection \<open>Auxiliary facts\<close>

lemma sqrt_9: "sqrt 9 = 3"
  by (rule real_sqrt_unique) simp_all


lemma sqrt_25: "sqrt 25 = 5"
  by (rule real_sqrt_unique) simp_all

lemma sqrt_2_quarter: "sqrt (2 + (1 / 2)\<^sup>2) = 3 / 2"
  by (rule real_sqrt_unique) (simp_all add: power2_eq_square)







lemma dispatch_Origo [simp]:
  "dispatch [a0, a1, a2, AParam p] = Some (AParam p, Origo)"
  by (simp add: dispatch_def)



lemma txdelay3_finish:
  assumes "dispatch args = Some (AParam p, opt)" "opt \<noteq> Diverging_Wave"
    and "geometry p = Inr (xe, ye)" "g (default_c p) = None"
  shows "txdelay3 g f args = finish (raw_delays g f args) (default_c p)"
  using assms
  by (subst txdelay3.simps) (simp add: raw_delays_def Let_def split: beam.splits)

lemma raw_delays_Origo:
  assumes "geometry p = Inr (xe, ye)" "g (default_c p) = None"
  shows "raw_delays g f [a0, a1, a2, AParam p] = origo xe ye (the (c (default_c p))) a0 a1 a2"
  using assms by (simp add: raw_delays_def)


lemma shift_min_zeros:
  "0 < n \<Longrightarrow> shift_min [replicate n 0] = Inr [replicate n 0]"
  by (simp add: shift_min_def)

lemma finish_state:
  "\<exists>td. snd (finish d p) = Some (p\<lparr>TXdelay := td\<rparr>)"
proof (cases "\<exists>d'. d = Inr d' \<and> (\<exists>D. shift_min d' = Inr D)")
  case True
  then show ?thesis by (auto simp: finish_def)
next
  case False
  then have "snd (finish d p) = Some (p\<lparr>TXdelay := TXdelay p\<rparr>)"
    by (auto simp: finish_def split: sum.splits)
  then show ?thesis by blast
qed

lemma default_c_frame:
  "\<exists>cv. default_c p = p\<lparr>c := cv\<rparr> \<and> (cv = c p \<or> c p = None \<and> cv = Some 1540)"
proof (cases "c p")
  case None
  then have "default_c p = p\<lparr>c := Some 1540\<rparr>" by (simp add: default_c_def)
  with None show ?thesis by blast
next
  case (Some v)
  then have "default_c p = p\<lparr>c := c p\<rparr>" by (simp add: default_c_def)
  then show ?thesis by blast
qed

lemma txdelay3_state_Origo:
  "\<exists>cv td. snd (txdelay3 g f [a0, a1, a2, AParam p]) = Some (p\<lparr>c := cv, TXdelay := td\<rparr>)
      \<and> (cv = c p \<or> c p = None \<and> cv = Some 1540)"
proof -
  have same: "p = p\<lparr>c := c p, TXdelay := TXdelay p\<rparr>" by simp
  obtain cv where cv: "default_c p = p\<lparr>c := cv\<rparr>" "cv = c p \<or> c p = None \<and> cv = Some 1540"
    using default_c_frame by blast
  have same1: "default_c p = p\<lparr>c := cv, TXdelay := TXdelay p\<rparr>" using cv by simp
  show ?thesis
  proof (cases "geometry p")
    case (Inl e)
    then have "snd (txdelay3 g f [a0, a1, a2, AParam p]) = Some p"
      by (subst txdelay3.simps) (simp add: dispatch_def)
    with same show ?thesis by metis
  next
    case (Inr xy)
    show ?thesis
    proof (cases "g (default_c p)")
      case (Some e)
      with Inr have "snd (txdelay3 g f [a0, a1, a2, AParam p]) = Some (default_c p)"
        by (subst txdelay3.simps) (simp add: dispatch_def split: prod.splits)
      with same1 cv(2) show ?thesis by metis
    next
      case None
      obtain xe ye where "xy = (xe, ye)" by (cases xy)
      with Inr None have "txdelay3 g f [a0, a1, a2, AParam p]
          = finish (raw_delays g f [a0, a1, a2, AParam p]) (default_c p)"
        by (intro txdelay3_finish [where opt = Origo]) (simp_all add: dispatch_def)
      moreover obtain td where "snd (finish (raw_delays g f [a0, a1, a2, AParam p]) (default_c p))
          = Some ((default_c p)\<lparr>TXdelay := td\<rparr>)"
        using finish_state by blast
      ultimately have "snd (txdelay3 g f [a0, a1, a2, AParam p]) = Some (p\<lparr>c := cv, TXdelay := td\<rparr>)"
        using cv(1) by simp
      with cv(2) show ?thesis by blast
    qed
  qed
qed

text \<open>Where the names \<open>param\<close> and \<open>d\<close> are read without having been bound.\<close>

lemma txdelay3_unbound_param:
  "dispatch args = None \<Longrightarrow> txdelay3 g f args = (Inl (UnboundLocalError ''param''), None)"
  by (subst txdelay3.simps) simp

lemma dispatch_None_iff:
  "dispatch args = None \<longleftrightarrow>
     (length args = 4 \<and> \<not> is_Param (args ! 3) \<and> \<not> is_Param (args ! 0))
     \<or> (length args \<noteq> 4 \<and> length args \<noteq> 3)"
  by (auto simp: dispatch_def)

lemma origo_mismatch:
  "\<not> (column_len a0 = column_len a1 \<and> column_len a1 = column_len a2)
     \<Longrightarrow> origo xe ye cv a0 a1 a2 = Inl MismatchedTargetLength"
  by (simp add: origo_def)

lemma origo_unbound_d:
  "column_len a0 = column_len a1 \<Longrightarrow> column_len a1 = column_len a2
     \<Longrightarrow> column_len a0 \<noteq> 1 \<Longrightarrow> column_len a0 \<noteq> 2
     \<Longrightarrow> origo xe ye cv a0 a1 a2 = Inl (UnboundLocalError ''d'')"
  by (simp add: origo_def)

text \<open>
  The test of lines 211 to 214 against the plaid grids of the specification: a plaid grid
  passes it, in whatever order its elements are listed, and among the layouts whose
  elements lie at pairwise distinct positions only plaid grids pass it.
\<close>

lemma mset_flatten_rows: "mset (concat (replicate n u)) = repeat_mset n (mset u)"
  by (induction n) auto

lemma mset_flatten_columns: "mset (concat (map (\<lambda>y. replicate m y) v)) = repeat_mset m (mset v)"
  by (induction v) auto

lemma mset_map_fst_Pair: "image_mset fst (image_mset (Pair a) M) = replicate_mset (size M) a"
  by (simp add: multiset.map_comp comp_def image_mset_const_eq)

lemma mset_fst_product:
  "image_mset fst (mset (List.product as bs)) = repeat_mset (length bs) (mset as)"
  by (induction as) (auto simp: mset_map_fst_Pair)

lemma mset_map_snd_Pair: "image_mset snd (image_mset (Pair a) M) = M"
  by (simp add: multiset.map_comp comp_def)

lemma mset_snd_product:
  "image_mset snd (mset (List.product as bs)) = repeat_mset (length as) (mset bs)"
  by (induction as) (auto simp: mset_map_snd_Pair)

lemma mset_fst_zip: "length xe = length ye \<Longrightarrow> image_mset fst (mset (zip xe ye)) = mset xe"
  by (metis map_fst_zip mset_map)

lemma mset_snd_zip: "length xe = length ye \<Longrightarrow> image_mset snd (mset (zip xe ye)) = mset ye"
  by (metis map_snd_zip mset_map)

lemma sort_eq_of_mset_eq: "mset (xs::real list) = mset ys \<Longrightarrow> sort xs = sort ys"
  by (rule properties_for_sort) simp_all

lemma np_all_eq_refl: "np_all_eq a a"
  by (simp add: np_all_eq_def list_all2_same)

lemma mset_meshgrid_x:
  "mset (flatten (fst (meshgrid (np_unique xe) (np_unique ye))))
     = repeat_mset (length (remdups ye)) (mset (remdups xe))"
  by (simp add: meshgrid_def flatten_def np_unique_def mset_flatten_rows)

lemma mset_meshgrid_y:
  "mset (flatten (snd (meshgrid (np_unique xe) (np_unique ye))))
     = repeat_mset (length (remdups xe)) (mset (remdups ye))"
  by (simp add: meshgrid_def flatten_def np_unique_def mset_flatten_columns)

lemma plaid_test_iff:
  "plaid_test xe ye \<longleftrightarrow>
     np_all_eq (sort (flatten (fst (meshgrid (np_unique xe) (np_unique ye))))) (sort xe)
     \<and> np_all_eq (sort (flatten (snd (meshgrid (np_unique xe) (np_unique ye))))) (sort ye)"
  by (simp add: plaid_test_def Let_def case_prod_unfold)

lemma plaid_grid_accepted:
  assumes len: "length xe = length ye" and grid: "plaid_grid_spec xe ye"
  shows "plaid_test xe ye"
proof -
  from grid have eq: "mset (zip xe ye) = mset (List.product (remdups xe) (remdups ye))"
    by (simp add: plaid_grid_spec_def)
  have "mset xe = repeat_mset (length (remdups ye)) (mset (remdups xe))"
    using arg_cong [OF eq, of "image_mset fst"] len by (simp add: mset_fst_zip mset_fst_product)
  then have "mset (flatten (fst (meshgrid (np_unique xe) (np_unique ye)))) = mset xe"
    by (simp add: mset_meshgrid_x)
  then have x: "sort (flatten (fst (meshgrid (np_unique xe) (np_unique ye)))) = sort xe"
    by (rule sort_eq_of_mset_eq)
  have "mset ye = repeat_mset (length (remdups xe)) (mset (remdups ye))"
    using arg_cong [OF eq, of "image_mset snd"] len by (simp add: mset_snd_zip mset_snd_product)
  then have "mset (flatten (snd (meshgrid (np_unique xe) (np_unique ye)))) = mset ye"
    by (simp add: mset_meshgrid_y)
  then have y: "sort (flatten (snd (meshgrid (np_unique xe) (np_unique ye)))) = sort ye"
    by (rule sort_eq_of_mset_eq)
  show ?thesis
    by (simp add: plaid_test_iff x y np_all_eq_refl)
qed

lemma np_all_eq_same_length:
  "length a = length b \<Longrightarrow> np_all_eq a b \<longleftrightarrow> a = b"
  by (simp add: np_all_eq_def list_all2_eq)

lemma plaid_test_distinct_exact:
  assumes len: "length xe = length ye" and dist: "distinct (zip xe ye)"
    and test: "plaid_test xe ye"
  shows "plaid_grid_spec xe ye"
proof -
  let ?ux = "remdups xe" and ?uy = "remdups ye"
  let ?A = "sort (flatten (fst (meshgrid (np_unique xe) (np_unique ye))))"
  have lenA: "length ?A = length ?uy * length ?ux"
    by (simp add: meshgrid_def flatten_def np_unique_def length_concat sum_list_replicate)
  have sub: "set (zip xe ye) \<subseteq> set ?ux \<times> set ?uy"
    by (auto dest: set_zip_leftD set_zip_rightD)
  have card_zip: "card (set (zip xe ye)) = length xe"
    using dist len by (simp add: distinct_card)
  have card_prod: "card (set ?ux \<times> set ?uy) = length ?ux * length ?uy"
    by (simp add: card_cartesian_product length_remdups_card_conv)
  have "length xe \<le> length ?ux * length ?uy"
    using card_mono [OF _ sub] card_zip card_prod by simp
  moreover have "length ?ux * length ?uy \<le> length xe"
  proof (cases "length ?A = length (sort xe)")
    case True
    with lenA show ?thesis by (simp add: mult.commute)
  next
    case False
    from test have "np_all_eq ?A (sort xe)" by (simp add: plaid_test_iff)
    with False have "length ?A = 1 \<or> length xe = 1"
      by (auto simp: np_all_eq_def split: if_splits)
    then show ?thesis
    proof
      assume "length ?A = 1"
      with lenA have one: "length ?ux * length ?uy = 1" by (simp add: mult.commute)
      then have "xe \<noteq> []" by auto
      then show ?thesis using one by (cases xe) auto
    next
      assume one: "length xe = 1"
      then obtain x where x: "xe = [x]" by (cases xe) auto
      from one len obtain y where y: "ye = [y]" by (cases ye) auto
      show ?thesis by (simp add: x y)
    qed
  qed
  ultimately have "card (set (zip xe ye)) = card (set ?ux \<times> set ?uy)"
    using card_zip card_prod by simp
  with sub have "set (zip xe ye) = set ?ux \<times> set ?uy"
    by (intro card_subset_eq) simp_all
  then have "set (zip xe ye) = set (List.product ?ux ?uy)" by simp
  moreover have "distinct (List.product ?ux ?uy)" by (simp add: distinct_product)
  ultimately have "mset (zip xe ye) = mset (List.product ?ux ?uy)"
    using dist by (simp only: set_eq_iff_mset_eq_distinct)
  then show ?thesis by (simp add: plaid_grid_spec_def)
qed

subsection \<open>Output normalisation\<close>



subsection \<open>The delay laws\<close>





text \<open>
  Claim C10. A point focus with \<open>z0 = 0\<close>, on a valid geometry with at least one element
  and a velocity other than 0, does not fail: the delays before normalisation are all 0,
  whatever the elements and \<open>x0\<close>, \<open>y0\<close> are, and the call returns one row of zeros.
\<close>

theorem focus_in_array_plane:
  assumes "geometry p = Inr (xe, ye)" and "g (default_c p) = None"
    and "c p \<noteq> Some 0" and "xe \<noteq> []" and "length ye = length xe"
  shows "raw_delays g f [ANum x0, ANum y0, ANum 0, AParam p] = Inr [replicate (length xe) 0]
       \<and> fst (txdelay3 g f [ANum x0, ANum y0, ANum 0, AParam p]) = Inr [replicate (length xe) 0]"
proof -
  have cv: "the (c (default_c p)) \<noteq> 0"
    using assms(3) by (auto simp: default_c_def)
  have "origo xe ye (the (c (default_c p))) (ANum x0) (ANum y0) (ANum 0)
          = Inr [replicate (length xe) 0]"
    using cv assms(5) by (simp add: origo_def focus_point_def map_replicate_const)
  then have raw: "raw_delays g f [ANum x0, ANum y0, ANum 0, AParam p] = Inr [replicate (length xe) 0]"
    using assms by (simp add: raw_delays_Origo)
  have "txdelay3 g f [ANum x0, ANum y0, ANum 0, AParam p]
        = finish (raw_delays g f [ANum x0, ANum y0, ANum 0, AParam p]) (default_c p)"
    using assms by (intro txdelay3_finish [where opt = Origo]) (simp_all add: dispatch_def)
  with raw assms(4) show ?thesis
    by (simp add: finish_def shift_min_zeros)
qed

theorem focus_in_array_plane_witness:
  "geometry param_no_c = Inr ([0, 3], [0, 0])
   \<and> helper_ok (default_c param_no_c) = None
   \<and> c param_no_c \<noteq> Some 0
   \<and> [0, 3::real] \<noteq> [] \<and> length [0, 0::real] = length [0, 3::real]
   \<and> raw_delays helper_ok (minimiser_const 1) [ANum 1, ANum 2, ANum 0, AParam param_no_c]
       = Inr [[0, 0]]
   \<and> fst (txdelay3 helper_ok (minimiser_const 1) [ANum 1, ANum 2, ANum 0, AParam param_no_c])
       = Inr [[0, 0]]"
  using focus_in_array_plane [of param_no_c "[0, 3]" "[0, 0]" helper_ok "minimiser_const 1" 1 2]
  by (simp add: param_no_c_def geometry_def default_c_def helper_ok_def numeral_2_eq_2)

text \<open>
  For a line focus the distances are those from the points \<open>(x, y, 0)\<close> to the line
  through the two targets, and the delays before normalisation have two rows: row \<open>k\<close>
  holds \<open>- d / cv * sgn z0k\<close> for the \<open>k\<close>-th target, because on line 262 the distances,
  of shape \<open>(N,)\<close>, are multiplied by \<open>np.sign(z0)\<close>, of shape \<open>(2, 1)\<close>.
\<close>

lemma line_focus_rows:
  assumes "geometry p = Inr (xe, ye)" and "g (default_c p) = None"
    and "c (default_c p) = Some cv" and "cv \<noteq> 0"
    and "(x02, y02, z02) \<noteq> (x01, y01, z01)"
  shows "raw_delays g f [AArr [x01, x02], AArr [y01, y02], AArr [z01, z02], AParam p]
           = Inr [map (\<lambda>d. - d / cv * sgn z01) (focus_line xe ye (x01, y01, z01) (x02, y02, z02)),
                  map (\<lambda>d. - d / cv * sgn z02) (focus_line xe ye (x01, y01, z01) (x02, y02, z02))]"
  using assms by (simp add: raw_delays_Origo origo_def Let_def)

text \<open>
  Claim C6. The claim asks for one delay per element. The call below, a line focus
  through \<open>(0, 0, 3)\<close> and \<open>(1, 0, 3)\<close> with three elements at distances 3, 5 and 5 from
  the line, returns two rows of three delays.
\<close>

theorem line_focus_two_rows:
  "fst (txdelay3 helper_ok (minimiser_const 1)
          [AArr [0, 1], AArr [0, 0], AArr [3, 3], AParam param_line])
     = Inr [[2, 0, 0], [2, 0, 0]]"
  by (simp add: txdelay3.simps dispatch_def param_line_def geometry_def default_c_def
      helper_ok_def origo_def focus_line_def finish_def shift_min_def sqrt_9 sqrt_25)

subsection \<open>The solid angle\<close>

text \<open>
  Claim C4. \<open>solidAngle\<close> is a function of \<open>r\<close>, \<open>l\<close>, \<open>b\<close>, \<open>az\<close> and \<open>el\<close> alone, and its value
  is the closed form of the specification.
\<close>

theorem solidAngle_closed_form:
  "solidAngle r l b az el = solid_angle_spec r l b az el"
  by (simp add: solidAngle_def solid_angle_spec_def w_spec_def Let_def)

subsection \<open>Failing calls\<close>

text \<open>
  Claim C7. A call with two arguments, and a call with four arguments none of which is a
  configuration object, end with Python's \<open>UnboundLocalError\<close> on \<open>param\<close>: lines 164 and 169
  build a \<open>ValueError\<close> and do not raise it, so line 171 reads a name that was never
  bound. Only a call with three arguments whose first is not a configuration object
  fails the assertion of line 171.
\<close>

theorem unrecognised_arguments_unbound:
  "txdelay3 helper_ok (minimiser_const 1) [ANum 1, ANum 2]
     = (Inl (UnboundLocalError ''param''), None)
   \<and> txdelay3 helper_ok (minimiser_const 1) [ANum 1, ANum 2, ANum 3, ANum 4]
     = (Inl (UnboundLocalError ''param''), None)
   \<and> txdelay3 helper_ok (minimiser_const 1) [ANum 1, ANum 2, ANum 3]
     = (Inl InvalidArguments, None)"
  by (simp add: txdelay3.simps dispatch_def)

text \<open>
  Claim C8. Targets of unequal lengths fail the assertion of line 252. Three targets of
  equal length do not: line 261 builds a \<open>ValueError\<close> and does not raise it, and line 262
  reads \<open>d\<close>, which was never bound.
\<close>

theorem three_targets_unbound:
  "txdelay3 helper_ok (minimiser_const 1)
      [AArr [0, 0, 0], AArr [0, 0, 0], AArr [1, 1, 1], AParam param_c1]
     = (Inl (UnboundLocalError ''d''), Some param_c1)
   \<and> txdelay3 helper_ok (minimiser_const 1)
      [AArr [0, 0], AArr [0, 0], AArr [1], AParam param_c1]
     = (Inl MismatchedTargetLength, Some param_c1)"
  by (simp add: txdelay3.simps dispatch_def param_c1_def geometry_def default_c_def
      helper_ok_def origo_def finish_def)

lemma plaid_test_coincident: "plaid_test [0, 0, 1, 1] [0, 0, 1, 1]"
  by (simp add: plaid_test_def np_unique_def meshgrid_def flatten_def np_all_eq_def numeral_2_eq_2)

lemma not_plaid_coincident: "\<not> plaid_grid_spec [0, 0, 1, 1] [0, 0, 1, 1]"
proof
  assume "plaid_grid_spec [0, 0, 1, 1] [0, 0, 1, 1]"
  then have "count (mset (zip [0, 0, 1, 1::real] [0, 0, 1, 1::real])) (0, 1)
      = count (mset (List.product (remdups [0, 0, 1, 1::real]) (remdups [0, 0, 1, 1::real]))) (0, 1)"
    unfolding plaid_grid_spec_def by (rule arg_cong [where f = "\<lambda>M. count M (0, 1)"])
  then show False by simp
qed

lemma virtual_source_coincident:
  "virtual_source (minimiser_const (1 / 2)) param_coincident
      [0, 0, 1, 1] [0, 0, 1, 1] (ANum 0) (ANum 0) (ANum 1)
     = Inr (0, 0, - 1 / 2)"
proof -
  have "1 \<le> 2 * pi" using pi_ge_two by linarith
  with plaid_test_coincident show ?thesis
    by (simp add: virtual_source_def param_coincident_def arctan2_def minimiser_const_def Let_def)
qed

text \<open>
  Claim C5. Four elements, two at \<open>(0, 0)\<close> and two at \<open>(1, 1)\<close>, are not the product of
  their distinct coordinates: \<open>(0, 1)\<close> and \<open>(1, 0)\<close> are missing. The test of lines 211 to
  214 compares the sorted coordinates of each axis on their own, accepts them, and the
  call returns delays. (Lemmas \<open>plaid_grid_accepted\<close> and \<open>plaid_test_distinct_exact\<close>: the
  test is exact when no two elements coincide.)
\<close>

theorem coincident_elements_accepted:
  "plaid_test [0, 0, 1, 1] [0, 0, 1, 1]
   \<and> \<not> plaid_grid_spec [0, 0, 1, 1] [0, 0, 1, 1]
   \<and> fst (txdelay3 helper_ok (minimiser_const (1 / 2))
            [AParam param_coincident, ANum 0, ANum 0, ANum 1])
       = Inr [[0, 0, 1, 1]]"
proof -
  have geo: "geometry param_coincident = Inr ([0, 0, 1, 1], [0, 0, 1, 1])"
    and cv: "default_c param_coincident = param_coincident" "c param_coincident = Some 1"
    by (simp_all add: param_coincident_def geometry_def default_c_def)
  have "fst (txdelay3 helper_ok (minimiser_const (1 / 2))
            [AParam param_coincident, ANum 0, ANum 0, ANum 1])
       = Inr [[0, 0, 1, 1]]"
    by (simp add: txdelay3.simps dispatch_def geo cv helper_ok_def virtual_source_coincident
        origo_def focus_point_def finish_def shift_min_def sqrt_2_quarter)
  with plaid_test_coincident not_plaid_coincident show ?thesis by blast
qed

subsection \<open>The configuration object\<close>

text \<open>
  Claim C9, as amended. In every call that binds a configuration object to \<open>param\<close>,
  whatever the outcome, the object ends as it started except for the fields \<open>c\<close> and
  \<open>TXdelay\<close>: the elements, the width and the height are unchanged; a velocity that was
  given is unchanged, and an absent one is either still absent or set to 1540.
\<close>

theorem txdelay3_frame:
  assumes "dispatch args = Some (AParam p, opt)"
  shows "\<exists>cv td. snd (txdelay3 g f args) = Some (p\<lparr>c := cv, TXdelay := td\<rparr>)
           \<and> (cv = c p \<or> c p = None \<and> cv = Some 1540)"
proof -
  have same: "p = p\<lparr>c := c p, TXdelay := TXdelay p\<rparr>" by simp
  obtain cv where cv: "default_c p = p\<lparr>c := cv\<rparr>" "cv = c p \<or> c p = None \<and> cv = Some 1540"
    using default_c_frame by blast
  have same1: "default_c p = p\<lparr>c := cv, TXdelay := TXdelay p\<rparr>" using cv by simp
  show ?thesis
  proof (cases "geometry p")
    case (Inl e)
    with assms have "snd (txdelay3 g f args) = Some p"
      by (subst txdelay3.simps) simp
    with same show ?thesis by metis
  next
    case (Inr xy)
    obtain xe ye where xy: "xy = (xe, ye)" by (cases xy)
    show ?thesis
    proof (cases "g (default_c p)")
      case (Some e)
      with Inr assms have "snd (txdelay3 g f args) = Some (default_c p)"
        by (subst txdelay3.simps) (simp split: prod.splits)
      with same1 cv(2) show ?thesis by metis
    next
      case None
      show ?thesis
      proof (cases "opt = Diverging_Wave")
        case False
        with Inr None xy assms have "txdelay3 g f args = finish (raw_delays g f args) (default_c p)"
          by (intro txdelay3_finish) simp_all
        moreover obtain td where "snd (finish (raw_delays g f args) (default_c p))
            = Some ((default_c p)\<lparr>TXdelay := td\<rparr>)"
          using finish_state by blast
        ultimately have "snd (txdelay3 g f args) = Some (p\<lparr>c := cv, TXdelay := td\<rparr>)"
          using cv(1) by simp
        with cv(2) show ?thesis by blast
      next
        case True
        show ?thesis
        proof (cases "virtual_source f (default_c p) xe ye (args ! 1) (args ! 2) (args ! 3)")
          case (Inl e)
          with True Inr None xy assms have "snd (txdelay3 g f args) = Some (default_c p)"
            by (subst txdelay3.simps) (simp add: finish_def)
          with same1 cv(2) show ?thesis by metis
        next
          case (Inr v)
          obtain x0 y0 z0 where v: "v = (x0, y0, z0)" by (cases v)
          let ?inner = "txdelay3 g f [ANum x0, ANum y0, ANum z0, AParam (default_c p)]"
          obtain cv' td' where inner: "snd ?inner = Some ((default_c p)\<lparr>c := cv', TXdelay := td'\<rparr>)"
            and cv': "cv' = c (default_c p) \<or> c (default_c p) = None \<and> cv' = Some 1540"
            using txdelay3_state_Origo [of g f "ANum x0" "ANum y0" "ANum z0" "default_c p"] by blast
          have "c (default_c p) \<noteq> None" by (simp add: default_c_def)
          with cv' cv(1) have cv'_eq: "cv' = cv" by auto
          obtain r where r: "?inner = (r, Some ((default_c p)\<lparr>c := cv', TXdelay := td'\<rparr>))"
            using inner by (cases ?inner) auto
          have "txdelay3 g f args = finish r ((default_c p)\<lparr>c := cv', TXdelay := td'\<rparr>)"
            using True \<open>geometry p = Inr xy\<close> None xy assms Inr v r
            by (subst txdelay3.simps) simp
          moreover obtain td where "snd (finish r ((default_c p)\<lparr>c := cv', TXdelay := td'\<rparr>))
              = Some ((default_c p)\<lparr>c := cv', TXdelay := td'\<rparr>\<lparr>TXdelay := td\<rparr>)"
            using finish_state by blast
          ultimately have "snd (txdelay3 g f args) = Some (p\<lparr>c := cv, TXdelay := td\<rparr>)"
            using cv(1) cv'_eq by simp
          with cv(2) show ?thesis by blast
        qed
      qed
    qed
  qed
qed

lemma txdelay3_no_config:
  assumes "\<nexists>p opt. dispatch args = Some (AParam p, opt)"
  shows "snd (txdelay3 g f args) = None"
  using assms
  by (subst txdelay3.simps) (auto split: option.splits arg.splits)

theorem txdelay3_frame_witness:
  "dispatch [AParam param_no_c, ANum 0, ANum 0] = Some (AParam param_no_c, Plane_Wave)
   \<and> (\<exists>cv td. snd (txdelay3 helper_ok (minimiser_const 1) [AParam param_no_c, ANum 0, ANum 0])
          = Some (param_no_c\<lparr>c := cv, TXdelay := td\<rparr>)
        \<and> (cv = c param_no_c \<or> c param_no_c = None \<and> cv = Some 1540))"
  using txdelay3_frame [of "[AParam param_no_c, ANum 0, ANum 0]" param_no_c Plane_Wave
      helper_ok "minimiser_const 1"]
  by (simp add: dispatch_def)

text \<open>
  The claim as it was stated fails where the velocity is absent: after the plane-wave
  call below the field \<open>c\<close> of the configuration object holds 1540.
\<close>

theorem default_velocity_written:
  "c param_no_c = None
   \<and> c (the (snd (txdelay3 helper_ok (minimiser_const 1) [AParam param_no_c, ANum 0, ANum 0])))
       = Some 1540"
  by (simp add: txdelay3.simps dispatch_def param_no_c_def geometry_def default_c_def
      helper_ok_def plane_wave_def finish_def shift_min_def)

end
